theory Spec2Isabelle
  imports Main "HOL-Library.Word"
begin

unbundle bit_operations_syntax

section \<open>Python values used by generate_addresses.py\<close>

text \<open>
  A Python \<open>bytes\<close> object is a list of 8-bit words. A Python \<open>str\<close> is a list of
  Unicode code points (natural numbers); \<open>py\<close> turns an Isabelle string literal,
  whose characters are all below 256, into such a list. A raised exception is a
  value \<open>Exc name\<close>, where \<open>name\<close> is the name of the exception class, and a call
  that may raise returns \<open>exn + 'a\<close> with \<open>Inl\<close> for the exception.
\<close>

type_synonym byte = "8 word"
type_synonym bytes = "byte list"
type_synonym str = "nat list"

datatype exn = Exc string

definition py :: "string \<Rightarrow> str" where
  "py s = map of_char s"

definition bindE :: "exn + 'a \<Rightarrow> ('a \<Rightarrow> exn + 'b) \<Rightarrow> exn + 'b" where
  "bindE m f = (case m of Inl e \<Rightarrow> Inl e | Inr x \<Rightarrow> f x)"

subsection \<open>str.encode('utf-8')\<close>

text \<open>
  One code point becomes one to four bytes. A surrogate (U+D800 to U+DFFF) makes
  Python raise UnicodeEncodeError. A Python string holds no code point above
  U+10FFFF; the model answers that unreachable case with the same exception.
\<close>

definition utf8_encode_cp :: "nat \<Rightarrow> exn + bytes" where
  "utf8_encode_cp c =
     (if c < 0x80 then Inr [of_nat c]
      else if c < 0x800 then Inr [of_nat (0xC0 + c div 64), of_nat (0x80 + c mod 64)]
      else if 0xD800 \<le> c \<and> c < 0xE000 then Inl (Exc ''UnicodeEncodeError'')
      else if c < 0x10000 then
        Inr [of_nat (0xE0 + c div 4096), of_nat (0x80 + (c div 64) mod 64),
             of_nat (0x80 + c mod 64)]
      else if c < 0x110000 then
        Inr [of_nat (0xF0 + c div 262144), of_nat (0x80 + (c div 4096) mod 64),
             of_nat (0x80 + (c div 64) mod 64), of_nat (0x80 + c mod 64)]
      else Inl (Exc ''UnicodeEncodeError''))"

fun utf8_encode :: "str \<Rightarrow> exn + bytes" where
  "utf8_encode [] = Inr []"
| "utf8_encode (c # cs) =
     bindE (utf8_encode_cp c) (\<lambda>b. bindE (utf8_encode cs) (\<lambda>bs. Inr (b @ bs)))"

subsection \<open>bytes.hex() and bip_utils' ToHex: lowercase hexadecimal\<close>



section \<open>The external libraries of the derivations\<close>

text \<open>
  The key-derivation primitives live in bip_utils, substrate-interface and
  eth-account, not in this repository. They are parameters of the model: a record
  of functions, each returning either the exception it raises or its result.
  \<^item> \<open>Bip39SeedGenerator_Generate\<close>: \<open>Bip39SeedGenerator(mnemonic).Generate()\<close>,
    the 64-byte BIP-39 seed (PBKDF2-HMAC-SHA512, 2048 rounds, empty passphrase);
    it raises on a mnemonic that fails validation.
  \<^item> \<open>Bip32Slip10Secp256k1_PrivateKey_Raw\<close>:
    \<open>Bip32Slip10Secp256k1.FromSeedAndPath(seed, path).PrivateKey().Raw()\<close>, the
    bytes of the private scalar at the path.
  \<^item> \<open>Keypair_create_from_seed\<close>, \<open>Keypair_create_from_uri\<close>: the constructors of
    substrate-interface's Keypair.
  \<^item> \<open>hdaccount_from_mnemonic\<close>: what eth-account's \<open>Account.from_mnemonic\<close> does
    once the HD wallet features are enabled.
\<close>

datatype KeypairType = ED25519 | SR25519 | ECDSA

record Keypair =
  public_key :: bytes
  private_key :: bytes
  ss58_address :: str
  ss58_format :: nat
  crypto_type :: KeypairType

record LocalAccount =
  address :: str
  key :: bytes

record hd_libs =
  Bip39SeedGenerator_Generate :: "str \<Rightarrow> exn + bytes"
  Bip32Slip10Secp256k1_PrivateKey_Raw :: "bytes \<Rightarrow> str \<Rightarrow> exn + bytes"
  Keypair_create_from_seed :: "bytes \<Rightarrow> nat \<Rightarrow> KeypairType \<Rightarrow> exn + Keypair"
  Keypair_create_from_uri :: "str \<Rightarrow> nat \<Rightarrow> KeypairType \<Rightarrow> exn + Keypair"
  hdaccount_from_mnemonic :: "str \<Rightarrow> str \<Rightarrow> exn + LocalAccount"

section \<open>The derivations\<close>


text \<open>
  eth-account keeps a class-level flag that \<open>enable_unaudited_hdwallet_features\<close>
  sets; \<open>from_mnemonic\<close> raises AttributeError while it is unset. The flag is the
  only state a derivation touches, so \<open>derive_ethereum\<close> takes it and returns it.
\<close>

definition Account_enable_unaudited_hdwallet_features :: "bool \<Rightarrow> bool" where
  "Account_enable_unaudited_hdwallet_features flag = True"

definition Account_from_mnemonic :: "hd_libs \<Rightarrow> bool \<Rightarrow> str \<Rightarrow> str \<Rightarrow> exn + LocalAccount" where
  "Account_from_mnemonic L flag mnemonic account_path =
     (if flag then hdaccount_from_mnemonic L mnemonic account_path
      else Inl (Exc ''AttributeError''))"

definition derive_ethereum :: "hd_libs \<Rightarrow> str \<Rightarrow> bool \<Rightarrow> (exn + LocalAccount) \<times> bool" where
  "derive_ethereum L mnemonic flag =
     (let flag' = Account_enable_unaudited_hdwallet_features flag
      in (Account_from_mnemonic L flag' mnemonic (py ''m/44'/60'/0'/0/0''), flag'))"




section \<open>The keystore encoder\<close>

subsection \<open>struct.pack('<I', n)\<close>

definition struct_pack_I :: "int \<Rightarrow> exn + bytes" where
  "struct_pack_I n =
     (if 0 \<le> n \<and> n < 2 ^ 32
      then Inr [of_int n, of_int (n div 256), of_int (n div 65536), of_int (n div 16777216)]
      else Inl (Exc ''struct.error''))"

subsection \<open>base64.b64encode and bytes.decode('ascii')\<close>

definition b64_char :: "nat \<Rightarrow> byte" where
  "b64_char i =
     of_char (''ABCDEFGHIJKLMNOPQRSTUVWXYZabcdefghijklmnopqrstuvwxyz0123456789+/'' ! (i mod 64))"

text \<open>Three bytes become four 6-bit indices into the alphabet; a last group of one
  or two bytes is padded with zero bits and closed with \<open>=\<close> signs.\<close>

fun b64encode :: "bytes \<Rightarrow> bytes" where
  "b64encode [] = []"
| "b64encode [a] =
     [b64_char (unat a div 4), b64_char (unat a mod 4 * 16), 0x3D, 0x3D]"
| "b64encode [a, b] =
     [b64_char (unat a div 4), b64_char (unat a mod 4 * 16 + unat b div 16),
      b64_char (unat b mod 16 * 4), 0x3D]"
| "b64encode (a # b # c # rest) =
     [b64_char (unat a div 4), b64_char (unat a mod 4 * 16 + unat b div 16),
      b64_char (unat b mod 16 * 4 + unat c div 64), b64_char (unat c mod 64)] @ b64encode rest"

definition decode_ascii :: "bytes \<Rightarrow> exn + str" where
  "decode_ascii bs =
     (if list_all (\<lambda>b. b < 0x80) bs then Inr (map unat bs) else Inl (Exc ''UnicodeDecodeError''))"

subsection \<open>os.urandom\<close>

text \<open>
  The operating system's random source is an endless tape of bytes; a draw of
  \<open>n\<close> bytes reads the next \<open>n\<close> and moves the tape on.
\<close>

type_synonym entropy = "nat \<Rightarrow> byte"

definition os_urandom :: "nat \<Rightarrow> entropy \<Rightarrow> bytes \<times> entropy" where
  "os_urandom n rng = (map rng [0..<n], \<lambda>i. rng (i + n))"

subsection \<open>The cryptographic libraries\<close>

text \<open>
  hashlib (OpenSSL) and PyNaCl (libsodium) are not part of this repository. Their
  cryptographic cores are parameters of the model:
  \<^item> \<open>scrypt_rfc7914 password salt N r p dkLen\<close>: the scrypt function, which
    both \<open>hashlib.scrypt\<close> and PyNaCl's \<open>crypto_pwhash_scryptsalsa208sha256_ll\<close>
    compute;
  \<^item> \<open>hashlib_has_scrypt\<close>: whether the interpreter's hashlib has the attribute
    \<open>scrypt\<close> at all;
  \<^item> \<open>hashlib_scrypt_rejects\<close>, \<open>nacl_scrypt_ll_rejects\<close>: the exception, if
    any, with which each binding refuses its arguments (parameter validation,
    memory limits);
  \<^item> \<open>xsalsa20_keystream nonce key i\<close>: byte \<open>i\<close> of the XSalsa20 key stream;
  \<^item> \<open>poly1305_mac message key\<close>: the Poly1305 authenticator, a 128-bit number.
  What the bindings do around these cores is modelled below, function by function.
\<close>

record crypto_libs =
  scrypt_rfc7914 :: "bytes \<Rightarrow> bytes \<Rightarrow> int \<Rightarrow> int \<Rightarrow> int \<Rightarrow> nat \<Rightarrow> bytes"
  hashlib_has_scrypt :: bool
  hashlib_scrypt_rejects :: "bytes \<Rightarrow> bytes \<Rightarrow> int \<Rightarrow> int \<Rightarrow> int \<Rightarrow> nat \<Rightarrow> exn option"
  nacl_scrypt_ll_rejects :: "bytes \<Rightarrow> bytes \<Rightarrow> int \<Rightarrow> int \<Rightarrow> int \<Rightarrow> int \<Rightarrow> nat \<Rightarrow> exn option"
  xsalsa20_keystream :: "bytes \<Rightarrow> bytes \<Rightarrow> nat \<Rightarrow> byte"
  poly1305_mac :: "bytes \<Rightarrow> bytes \<Rightarrow> 128 word"

text \<open>\<open>hashlib.scrypt(password, salt=salt, n=n, r=r, p=p, dklen=dklen)\<close>; looking up a
  missing attribute raises AttributeError.\<close>

definition hashlib_scrypt ::
  "crypto_libs \<Rightarrow> bytes \<Rightarrow> bytes \<Rightarrow> int \<Rightarrow> int \<Rightarrow> int \<Rightarrow> nat \<Rightarrow> exn + bytes" where
  "hashlib_scrypt L password salt n r p dklen =
     (if hashlib_has_scrypt L
      then (case hashlib_scrypt_rejects L password salt n r p dklen of
              Some e \<Rightarrow> Inl e
            | None \<Rightarrow> Inr (scrypt_rfc7914 L password salt n r p dklen))
      else Inl (Exc ''AttributeError''))"

text \<open>
  PyNaCl's \<open>nacl.pwhash.scrypt.kdf(size, password, salt, opslimit, memlimit)\<close> (its
  \<open>size\<close> is \<open>dklen\<close> below) does
  not take N, r and p: it chooses them from \<open>opslimit\<close> and \<open>memlimit\<close> with
  \<open>nacl_bindings_pick_scrypt_params\<close>, PyNaCl's port of libsodium's \<open>pickparams\<close>,
  and then calls the low-level function with N = 2 ** n_log2. The two
  \<open>for n_log2 in range(1, 63)\<close> loops of \<open>pickparams\<close> stop at the first exponent
  whose power of two exceeds \<open>maxn // 2\<close>, and leave 62 when there is none.
\<close>

definition pick_n_log2 :: "int \<Rightarrow> nat" where
  "pick_n_log2 maxn = (case find (\<lambda>i. 2 ^ i > maxn div 2) [1..<63] of Some i \<Rightarrow> i | None \<Rightarrow> 62)"

definition nacl_bindings_pick_scrypt_params :: "int \<Rightarrow> int \<Rightarrow> nat \<times> int \<times> int" where
  "nacl_bindings_pick_scrypt_params opslimit0 memlimit =
     (let opslimit = (if opslimit0 < 32768 then 32768 else opslimit0);
          r = 8
      in if opslimit < memlimit div 32 then
           (let p = 1;
                maxn = opslimit div (4 * r);
                n_log2 = pick_n_log2 maxn
            in (n_log2, r, p))
         else
           (let maxn = memlimit div (r * 128);
                n_log2 = pick_n_log2 maxn;
                maxrp0 = (opslimit div 4) div (2 ^ n_log2);
                maxrp = (if maxrp0 > 0x3FFFFFFF then 0x3FFFFFFF else maxrp0);
                p = maxrp div r
            in (n_log2, r, p)))"

definition crypto_pwhash_scryptsalsa208sha256_ll ::
  "crypto_libs \<Rightarrow> bytes \<Rightarrow> bytes \<Rightarrow> int \<Rightarrow> int \<Rightarrow> int \<Rightarrow> int \<Rightarrow> nat \<Rightarrow> exn + bytes" where
  "crypto_pwhash_scryptsalsa208sha256_ll L passwd salt n r p maxmem dklen =
     (case nacl_scrypt_ll_rejects L passwd salt n r p maxmem dklen of
        Some e \<Rightarrow> Inl e
      | None \<Rightarrow> Inr (scrypt_rfc7914 L passwd salt n r p dklen))"

definition nacl_pwhash_scrypt_kdf ::
  "crypto_libs \<Rightarrow> nat \<Rightarrow> bytes \<Rightarrow> bytes \<Rightarrow> int \<Rightarrow> int \<Rightarrow> exn + bytes" where
  "nacl_pwhash_scrypt_kdf L dklen password salt opslimit memlimit =
     (if length salt = 32 then
        (case nacl_bindings_pick_scrypt_params opslimit memlimit of (n_log2, r, p) \<Rightarrow>
           let maxmem = memlimit + 2 ^ 16
           in crypto_pwhash_scryptsalsa208sha256_ll L password salt (2 ^ n_log2) r p maxmem dklen)
      else Inl (Exc ''ValueError''))"

text \<open>
  NaCl's \<open>crypto_secretbox\<close> (xsalsa20-poly1305), as PyNaCl's binding calls it: the
  message is padded with 32 zero bytes and XORed with the key stream; the
  Poly1305 authenticator of bytes 32 onwards, keyed with bytes 0 to 31, is
  written to bytes 16 to 31; bytes 0 to 15 are zeroed, and the binding returns
  the buffer without them.
\<close>

definition crypto_stream_xsalsa20 :: "crypto_libs \<Rightarrow> nat \<Rightarrow> bytes \<Rightarrow> bytes \<Rightarrow> bytes" where
  "crypto_stream_xsalsa20 L n nonce k = map (xsalsa20_keystream L nonce k) [0..<n]"

definition crypto_stream_xsalsa20_xor :: "crypto_libs \<Rightarrow> bytes \<Rightarrow> bytes \<Rightarrow> bytes \<Rightarrow> bytes" where
  "crypto_stream_xsalsa20_xor L m nonce k =
     map (\<lambda>(x, y). x XOR y) (zip m (crypto_stream_xsalsa20 L (length m) nonce k))"

definition crypto_onetimeauth_poly1305 :: "crypto_libs \<Rightarrow> bytes \<Rightarrow> bytes \<Rightarrow> bytes" where
  "crypto_onetimeauth_poly1305 L m k =
     map (\<lambda>i. ucast (drop_bit (8 * i) (poly1305_mac L m k))) [0..<16]"

definition crypto_secretbox :: "crypto_libs \<Rightarrow> bytes \<Rightarrow> bytes \<Rightarrow> bytes \<Rightarrow> bytes" where
  "crypto_secretbox L message nonce k =
     (let padded = replicate 32 0 @ message;
          c = crypto_stream_xsalsa20_xor L padded nonce k;
          tag = crypto_onetimeauth_poly1305 L (drop 32 c) (take 32 c);
          c' = replicate 16 0 @ tag @ drop 32 c
      in drop 16 c')"

text \<open>\<open>SecretBox(key)\<close> keeps the key and refuses one that is not 32 bytes long;
  \<open>box.encrypt(plaintext, nonce)\<close> refuses a nonce that is not 24 bytes long and
  returns the nonce followed by the output of \<open>crypto_secretbox\<close>.\<close>

definition SecretBox :: "bytes \<Rightarrow> exn + bytes" where
  "SecretBox k = (if length k = 32 then Inr k else Inl (Exc ''ValueError''))"

definition SecretBox_encrypt :: "crypto_libs \<Rightarrow> bytes \<Rightarrow> bytes \<Rightarrow> bytes \<Rightarrow> exn + bytes" where
  "SecretBox_encrypt L box plaintext nonce =
     (if length nonce = 24 then Inr (nonce @ crypto_secretbox L plaintext nonce box)
      else Inl (Exc ''ValueError''))"

subsection \<open>build_keystore\<close>

record Keystore =
  encoded :: str
  encoding_content :: "str list"
  encoding_type :: "str list"
  encoding_version :: str
  keystore_address :: str
  meta_name :: str
  meta_whenCreated :: int

text \<open>Lines 316 to 325: the \<open>try\<close> block calls \<open>hashlib.scrypt\<close>, and
  \<open>except AttributeError\<close> sends an AttributeError, and nothing else, to PyNaCl.\<close>

definition build_keystore_key :: "crypto_libs \<Rightarrow> bytes \<Rightarrow> bytes \<Rightarrow> exn + bytes" where
  "build_keystore_key L password_bytes salt =
     (let scrypt_n = push_bit 15 1; scrypt_p = 1; scrypt_r = 8
      in case hashlib_scrypt L password_bytes salt scrypt_n scrypt_r scrypt_p 32 of
           Inr k \<Rightarrow> Inr k
         | Inl e \<Rightarrow>
             if e = Exc ''AttributeError'' then
               (let memlimit = 128 * scrypt_n * scrypt_r
                in nacl_pwhash_scrypt_kdf L 32 password_bytes salt scrypt_n memlimit)
             else Inl e)"

text \<open>
  \<open>build_keystore\<close> reads the random tape and the clock; the tape is passed in and
  returned, and \<open>now_ms\<close> stands for \<open>int(time.time() * 1000)\<close>. The salt is drawn
  before the password is encoded and the nonce before the box is built, so an
  exception leaves the tape where the last draw put it.
\<close>

definition build_keystore ::
  "crypto_libs \<Rightarrow> Keypair \<Rightarrow> bytes \<Rightarrow> str \<Rightarrow> entropy \<Rightarrow> int \<Rightarrow> (exn + Keystore) \<times> entropy" where
  "build_keystore L keypair seed_bytes password rng now_ms =
     (let pkcs8_header = [0x30, 0x53, 0x02, 0x01, 0x01, 0x30, 0x05, 0x06,
                          0x03, 0x2b, 0x65, 0x70, 0x04, 0x22, 0x04, 0x20];
          pkcs8_divider = [0xa1, 0x23, 0x03, 0x21, 0x00];
          plaintext = pkcs8_header @ seed_bytes @ pkcs8_divider @ public_key keypair;
          scrypt_n = push_bit 15 1;
          scrypt_p = 1;
          scrypt_r = 8
      in case os_urandom 32 rng of (salt, rng1) \<Rightarrow>
         (case bindE (utf8_encode password) (\<lambda>password_bytes.
                 build_keystore_key L password_bytes salt) of
            Inl e \<Rightarrow> (Inl e, rng1)
          | Inr k \<Rightarrow>
             (case os_urandom 24 rng1 of (nonce, rng2) \<Rightarrow>
               (bindE (SecretBox k) (\<lambda>box.
                bindE (SecretBox_encrypt L box plaintext nonce) (\<lambda>message.
                  let encrypted = drop 24 message
                  in bindE (struct_pack_I scrypt_n) (\<lambda>n_le.
                     bindE (struct_pack_I scrypt_p) (\<lambda>p_le.
                     bindE (struct_pack_I scrypt_r) (\<lambda>r_le.
                       let encoded_bytes = salt @ n_le @ p_le @ r_le @ nonce @ encrypted
                       in bindE (decode_ascii (b64encode encoded_bytes)) (\<lambda>encoded_b64.
                          Inr \<lparr>encoded = encoded_b64,
                               encoding_content = [py ''pkcs8'', py ''ed25519''],
                               encoding_type = [py ''scrypt'', py ''xsalsa20-poly1305''],
                               encoding_version = py ''3'',
                               keystore_address = ss58_address keypair,
                               meta_name = py ''Enjin Snap'',
                               meta_whenCreated = now_ms\<rparr>)))))),
                rng2))))"

section \<open>Reading a keystore back\<close>

text \<open>
  The repository has no decoder. The definitions of this section follow the
  specification's description of the round trip: base64-decode the \<open>encoded\<close>
  field, read the salt, the three scrypt parameters (4-byte little-endian, in the
  order N, p, r) and the nonce from the blob, derive the key from the password
  with those parameters, and open the box. \<open>crypto_secretbox_open\<close> is NaCl's
  inverse of \<open>crypto_secretbox\<close>: it recomputes the authenticator under the first
  32 bytes of the key stream and refuses the box when it differs.
\<close>

definition b64_index :: "nat \<Rightarrow> nat option" where
  "b64_index c =
     (if 65 \<le> c \<and> c \<le> 90 then Some (c - 65)
      else if 97 \<le> c \<and> c \<le> 122 then Some (c - 71)
      else if 48 \<le> c \<and> c \<le> 57 then Some (c + 4)
      else if c = 43 then Some 62
      else if c = 47 then Some 63
      else None)"

fun b64decode :: "str \<Rightarrow> exn + bytes" where
  "b64decode [] = Inr []"
| "b64decode (c0 # c1 # c2 # c3 # rest) =
     (case (b64_index c0, b64_index c1) of
        (Some i0, Some i1) \<Rightarrow>
          if rest = [] \<and> c2 = 61 \<and> c3 = 61 then Inr [of_nat (i0 * 4 + i1 div 16)]
          else (case b64_index c2 of
                  Some i2 \<Rightarrow>
                    if rest = [] \<and> c3 = 61 then
                      Inr [of_nat (i0 * 4 + i1 div 16), of_nat (i1 mod 16 * 16 + i2 div 4)]
                    else (case b64_index c3 of
                            Some i3 \<Rightarrow>
                              bindE (b64decode rest) (\<lambda>bs.
                                Inr (of_nat (i0 * 4 + i1 div 16) # of_nat (i1 mod 16 * 16 + i2 div 4)
                                     # of_nat (i2 mod 4 * 64 + i3) # bs))
                          | None \<Rightarrow> Inl (Exc ''binascii.Error''))
                | None \<Rightarrow> Inl (Exc ''binascii.Error''))
      | _ \<Rightarrow> Inl (Exc ''binascii.Error''))"
| "b64decode _ = Inl (Exc ''binascii.Error'')"

definition le_uint :: "bytes \<Rightarrow> nat" where
  "le_uint bs = foldr (\<lambda>b acc. unat b + 256 * acc) bs 0"

definition crypto_secretbox_open :: "crypto_libs \<Rightarrow> bytes \<Rightarrow> bytes \<Rightarrow> bytes \<Rightarrow> exn + bytes" where
  "crypto_secretbox_open L c nonce k =
     (if length c < 16 then Inl (Exc ''CryptoError'')
      else (let subkey = crypto_stream_xsalsa20 L 32 nonce k;
                tag = take 16 c;
                body = drop 16 c
            in if crypto_onetimeauth_poly1305 L body subkey = tag
               then Inr (drop 32 (crypto_stream_xsalsa20_xor L (replicate 32 0 @ body) nonce k))
               else Inl (Exc ''CryptoError'')))"

definition decrypt_keystore :: "crypto_libs \<Rightarrow> str \<Rightarrow> str \<Rightarrow> exn + bytes" where
  "decrypt_keystore L encoded_b64 password =
     bindE (b64decode encoded_b64) (\<lambda>blob.
       if length blob < 68 then Inl (Exc ''ValueError'')
       else (let salt = take 32 blob;
                 n = int (le_uint (take 4 (drop 32 blob)));
                 p = int (le_uint (take 4 (drop 36 blob)));
                 r = int (le_uint (take 4 (drop 40 blob)));
                 nonce = take 24 (drop 44 blob);
                 authenticated = drop 68 blob
             in bindE (utf8_encode password) (\<lambda>password_bytes.
                  crypto_secretbox_open L authenticated nonce
                    (scrypt_rfc7914 L password_bytes salt n r p 32))))"

section \<open>Names for the parts of a keystore\<close>

text \<open>
  The salt and the nonce of a call are the first and the second draw from the
  tape it is given. \<open>secretbox_ciphertext\<close> is the message XORed with the key
  stream from byte 32 on, and \<open>secretbox_tag\<close> the authenticator of that
  ciphertext under the first 32 bytes of the key stream.
\<close>

definition drawn_salt :: "entropy \<Rightarrow> bytes" where
  "drawn_salt rng = fst (os_urandom 32 rng)"

definition drawn_nonce :: "entropy \<Rightarrow> bytes" where
  "drawn_nonce rng = fst (os_urandom 24 (snd (os_urandom 32 rng)))"

definition pkcs8_plaintext :: "bytes \<Rightarrow> bytes \<Rightarrow> bytes" where
  "pkcs8_plaintext seed pk =
     [0x30, 0x53, 0x02, 0x01, 0x01, 0x30, 0x05, 0x06, 0x03, 0x2b, 0x65, 0x70, 0x04, 0x22, 0x04, 0x20]
     @ seed @ [0xa1, 0x23, 0x03, 0x21, 0x00] @ pk"

definition keystore_blob :: "bytes \<Rightarrow> bytes \<Rightarrow> bytes \<Rightarrow> bytes" where
  "keystore_blob salt nonce authenticated =
     salt @ [0x00, 0x80, 0x00, 0x00] @ [0x01, 0x00, 0x00, 0x00] @ [0x08, 0x00, 0x00, 0x00]
     @ nonce @ authenticated"

definition secretbox_ciphertext :: "crypto_libs \<Rightarrow> bytes \<Rightarrow> bytes \<Rightarrow> bytes \<Rightarrow> bytes" where
  "secretbox_ciphertext L m nonce k =
     map (\<lambda>(x, y). x XOR y) (zip m (map (xsalsa20_keystream L nonce k) [32..<32 + length m]))"

definition secretbox_tag :: "crypto_libs \<Rightarrow> bytes \<Rightarrow> bytes \<Rightarrow> bytes \<Rightarrow> bytes" where
  "secretbox_tag L m nonce k =
     crypto_onetimeauth_poly1305 L (secretbox_ciphertext L m nonce k)
       (crypto_stream_xsalsa20 L 32 nonce k)"




section \<open>Test data\<close>

text \<open>
  Stub libraries with fixed answers, for evaluating the model on concrete input.
  \<open>stub_hd_libs\<close> knows one mnemonic and rejects every other one the way each
  library does (eth-account raises ValidationError). \<open>stub_crypto\<close> has toy
  primitives whose output depends on the key and on N, so that two different
  scrypt parameter sets give two different keys; \<open>stub_crypto_no_hashlib\<close> is
  the same on an interpreter whose hashlib has no \<open>scrypt\<close>.
\<close>

definition test_mnemonic :: str where
  "test_mnemonic = py ''abandon abandon abandon abandon abandon abandon abandon abandon abandon abandon abandon about''"

definition test_bip39_seed :: bytes where
  "test_bip39_seed = [94, 176, 11, 189, 220, 240, 105, 8, 72, 137, 168, 171, 145, 85, 86, 129,
     101, 245, 196, 83, 204, 184, 94, 112, 129, 26, 174, 214, 246, 218, 95, 193, 154, 90, 196,
     11, 56, 156, 211, 112, 208, 134, 32, 109, 236, 138, 166, 196, 61, 174, 166, 105, 15, 32,
     173, 61, 141, 72, 178, 210, 206, 158, 56, 228]"

definition test_raw :: bytes where
  "test_raw = [215, 23, 209, 14, 128, 37, 124, 198, 215, 245, 41, 148, 140, 8, 0, 126, 152, 243,
     182, 145, 230, 181, 20, 130, 77, 99, 150, 96, 50, 74, 118, 178]"

definition test_seed_bytes :: bytes where
  "test_seed_bytes = [48, 120, 100, 55, 49, 55, 100, 49, 48, 101, 56, 48, 50, 53, 55, 99, 99, 54,
     100, 55, 102, 53, 50, 57, 57, 52, 56, 99, 48, 56, 48, 48]"

definition test_public_key :: bytes where
  "test_public_key = [1, 2, 3, 4, 5, 6, 7, 8, 9, 10, 11, 12, 13, 14, 15, 16, 17, 18, 19, 20, 21,
     22, 23, 24, 25, 26, 27, 28, 29, 30, 31, 32]"

definition test_keypair :: Keypair where
  "test_keypair = \<lparr>public_key = test_public_key, private_key = test_seed_bytes,
     ss58_address = py ''en-stub'', ss58_format = 1110, crypto_type = ED25519\<rparr>"

definition stub_hd_libs :: hd_libs where
  "stub_hd_libs = \<lparr>
     Bip39SeedGenerator_Generate =
       (\<lambda>m. if m = test_mnemonic then Inr test_bip39_seed else Inl (Exc ''ValueError'')),
     Bip32Slip10Secp256k1_PrivateKey_Raw =
       (\<lambda>seed path. if seed = test_bip39_seed \<and> path = py (''m/44'/1155'' @ [CHR 0x27])
          then Inr test_raw else Inl (Exc ''Bip32KeyError'')),
     Keypair_create_from_seed =
       (\<lambda>seed fmt ct. if length seed = 32
          then Inr \<lparr>public_key = test_public_key, private_key = seed,
                    ss58_address = py ''en-stub'', ss58_format = fmt, crypto_type = ct\<rparr>
          else Inl (Exc ''ValueError'')),
     Keypair_create_from_uri =
       (\<lambda>uri fmt ct. if uri = test_mnemonic
          then Inr \<lparr>public_key = test_public_key, private_key = test_raw,
                    ss58_address = py ''en-stub-sr'', ss58_format = fmt, crypto_type = ct\<rparr>
          else Inl (Exc ''ValueError'')),
     hdaccount_from_mnemonic =
       (\<lambda>m path. if m = test_mnemonic
          then Inr \<lparr>address = py ''0xstub'', key = test_raw\<rparr>
          else Inl (Exc ''ValidationError''))\<rparr>"

fun first_byte :: "bytes \<Rightarrow> byte" where
  "first_byte [] = 0"
| "first_byte (b # bs) = b"

definition stub_crypto :: crypto_libs where
  "stub_crypto = \<lparr>
     scrypt_rfc7914 = (\<lambda>password salt n r p dklen.
        replicate dklen (of_int (n div 256) + of_nat (length password))),
     hashlib_has_scrypt = True,
     hashlib_scrypt_rejects = (\<lambda>password salt n r p dklen. None),
     nacl_scrypt_ll_rejects = (\<lambda>password salt n r p maxmem dklen. None),
     xsalsa20_keystream = (\<lambda>nonce k i. first_byte k + of_nat i),
     poly1305_mac = (\<lambda>m k. ucast (first_byte k) + of_nat (length m))\<rparr>"

definition stub_crypto_no_hashlib :: crypto_libs where
  "stub_crypto_no_hashlib = stub_crypto\<lparr>hashlib_has_scrypt := False\<rparr>"

definition test_entropy :: entropy where
  "test_entropy i = of_nat (3 * i + 1)"

definition test_password :: str where
  "test_password = py ''hunter2''"

definition test_password_bytes :: bytes where
  "test_password_bytes = [104, 117, 110, 116, 101, 114, 50]"

definition test_keystore :: Keystore where
  "test_keystore = \<lparr>
     encoded = py ''AQQHCg0QExYZHB8iJSgrLjE0Nzo9QENGSUxPUlVYW14AgAAAAQAAAAgAAABhZGdqbXBzdnl8f4KFiIuOkZSXmp2go6bcAAAAAAAAAAAAAAAAAAAAl/urq6qcqKism9TCt5axlofA3Y2Ki9mPj6X58vHx8qWk/q39rfn/9/bk6bHj7OXmdvva+9vd393b5efl6+3v7evl5+X7/f/9++Xn5evt7+3r5efl2w=='',
     encoding_content = [py ''pkcs8'', py ''ed25519''],
     encoding_type = [py ''scrypt'', py ''xsalsa20-poly1305''],
     encoding_version = py ''3'',
     keystore_address = py ''en-stub'',
     meta_name = py ''Enjin Snap'',
     meta_whenCreated = 1700000000000\<rparr>"

definition test_keystore_fallback :: Keystore where
  "test_keystore_fallback = \<lparr>
     encoded = py ''AQQHCg0QExYZHB8iJSgrLjE0Nzo9QENGSUxPUlVYW14AgAAAAQAAAAgAAABhZGdqbXBzdnl8f4KFiIuOkZSXmp2go6ZgAAAAAAAAAAAAAAAAAAAAG38vLy4ANDQwH1BGMxo9GgtEWQkOdyVzcyF9dnV9fikoeil5KWVja2pgbTVnYGlq+n9ef19hY2FnYWNhb2FjYWdhY2F/YWNhZ2FjYW9hY2FnYWNhXw=='',
     encoding_content = [py ''pkcs8'', py ''ed25519''],
     encoding_type = [py ''scrypt'', py ''xsalsa20-poly1305''],
     encoding_version = py ''3'',
     keystore_address = py ''en-stub'',
     meta_name = py ''Enjin Snap'',
     meta_whenCreated = 1700000000000\<rparr>"

definition test_authenticated :: bytes where
  "test_authenticated = [220, 0, 0, 0, 0, 0, 0, 0, 0, 0, 0, 0, 0, 0, 0, 0,
     151, 251, 171, 171, 170, 156, 168, 168, 172, 155, 212, 194, 183, 150, 177, 150, 135, 192,
     221, 141, 138, 139, 217, 143, 143, 165, 249, 242, 241, 241, 242, 165, 164, 254, 173, 253,
     173, 249, 255, 247, 246, 228, 233, 177, 227, 236, 229, 230, 118, 251, 218, 251, 219, 221,
     223, 221, 219, 229, 231, 229, 235, 237, 239, 237, 235, 229, 231, 229, 251, 253, 255, 253,
     251, 229, 231, 229, 235, 237, 239, 237, 235, 229, 231, 229, 219]"


section \<open>Lemmas\<close>

subsection \<open>Hexadecimal strings and their UTF-8 encoding\<close>














subsection \<open>The Snap derivation, step by step\<close>







subsection \<open>Base64\<close>

lemma b64_char_table:
  "list_all (\<lambda>i. b64_index (unat (b64_char i)) = Some i \<and> b64_char i < 0x80) [0..<64]"
  by code_simp

lemma b64_char_index: "i < 64 \<Longrightarrow> b64_index (unat (b64_char i)) = Some i"
  using b64_char_table by (simp add: list_all_iff)

lemma b64_char_ascii: "b64_char i < 0x80"
proof -
  have "b64_char i = b64_char (i mod 64)" by (simp add: b64_char_def)
  moreover have "b64_char (i mod 64) < 0x80"
    using b64_char_table by (simp add: list_all_iff)
  ultimately show ?thesis by simp
qed

lemma b64_index_pad: "b64_index 61 = None" by (simp add: b64_index_def)

lemma b64_char_not_pad: "i < 64 \<Longrightarrow> unat (b64_char i) \<noteq> 61"
  using b64_char_index [of i] b64_index_pad by auto

lemma unat_byte_lt: "unat (a :: byte) < 256"
  using unsigned_less [of a, where 'a = nat] by simp

lemma pack_div: "y < k \<Longrightarrow> (x * k + y) div k = (x::nat)" by simp
lemma pack_mod: "y < k \<Longrightarrow> (x * k + y) mod k = (y::nat)" by simp
lemma pack_lt: "x < m \<Longrightarrow> y < k \<Longrightarrow> x * k + y < m * (k::nat)"
proof -
  assume x: "x < m" and y: "y < k"
  then have "Suc x \<le> m" by simp
  then have "Suc x * k \<le> m * k" by (rule mult_le_mono1)
  then show ?thesis using y by simp
qed

lemma sextets:
  fixes a b c :: nat
  assumes "a < 256" "b < 256" "c < 256"
  shows "a div 4 < 64" "a mod 4 * 16 + b div 16 < 64" "b mod 16 * 4 + c div 64 < 64" "c mod 64 < 64"
    "a mod 4 * 16 < 64" "b mod 16 * 4 < 64"
    "a div 4 * 4 + (a mod 4 * 16 + b div 16) div 16 = a"
    "(a mod 4 * 16 + b div 16) mod 16 * 16 + (b mod 16 * 4 + c div 64) div 4 = b"
    "(b mod 16 * 4 + c div 64) mod 4 * 64 + c mod 64 = c"
    "a div 4 * 4 + (a mod 4 * 16) div 16 = a"
    "(a mod 4 * 16 + b div 16) mod 16 * 16 + (b mod 16 * 4) div 4 = b"
proof -
  have b16: "b div 16 < 16" using assms(2) by simp
  have c64: "c div 64 < 4" using assms(3) by simp
  have a4: "a mod 4 < 4" and bm: "b mod 16 < 16" by simp_all
  show "a div 4 < 64" using assms(1) by simp
  show "a mod 4 * 16 + b div 16 < 64" using pack_lt [OF a4 b16] by simp
  show "b mod 16 * 4 + c div 64 < 64" using pack_lt [OF bm c64] by simp
  show "c mod 64 < 64" by simp
  show "a mod 4 * 16 < 64" using a4 by simp
  show "b mod 16 * 4 < 64" using bm by simp
  show "a div 4 * 4 + (a mod 4 * 16 + b div 16) div 16 = a"
    by (simp only: pack_div [OF b16]) simp
  show "(a mod 4 * 16 + b div 16) mod 16 * 16 + (b mod 16 * 4 + c div 64) div 4 = b"
    by (simp only: pack_mod [OF b16] pack_div [OF c64]) simp
  show "(b mod 16 * 4 + c div 64) mod 4 * 64 + c mod 64 = c"
    by (simp only: pack_mod [OF c64]) simp
  show "a div 4 * 4 + (a mod 4 * 16) div 16 = a" by simp
  show "(a mod 4 * 16 + b div 16) mod 16 * 16 + (b mod 16 * 4) div 4 = b"
    by (simp only: pack_mod [OF b16]) simp
qed

lemma of_nat_unat_byte: "(of_nat (unat (a :: byte)) :: byte) = a" by simp

lemma b64decode_group:
  assumes "i0 < 64" "i1 < 64" "i2 < 64" "i3 < 64"
  shows "b64decode (unat (b64_char i0) # unat (b64_char i1) # unat (b64_char i2)
                    # unat (b64_char i3) # rest) =
         bindE (b64decode rest) (\<lambda>bs.
           Inr (of_nat (i0 * 4 + i1 div 16) # of_nat (i1 mod 16 * 16 + i2 div 4)
                # of_nat (i2 mod 4 * 64 + i3) # bs))"
  using b64_char_not_pad [OF assms(3)] b64_char_not_pad [OF assms(4)]
  by (simp only: b64decode.simps b64_char_index [OF assms(1)] b64_char_index [OF assms(2)]
      b64_char_index [OF assms(3)] b64_char_index [OF assms(4)] prod.case option.case
      simp_thms if_False)

lemma b64decode_pad1:
  assumes "i0 < 64" "i1 < 64" "i2 < 64"
  shows "b64decode [unat (b64_char i0), unat (b64_char i1), unat (b64_char i2), 61] =
         Inr [of_nat (i0 * 4 + i1 div 16), of_nat (i1 mod 16 * 16 + i2 div 4)]"
  using b64_char_not_pad [OF assms(3)]
  by (simp only: b64decode.simps b64_char_index [OF assms(1)] b64_char_index [OF assms(2)]
      b64_char_index [OF assms(3)] prod.case option.case simp_thms if_False if_True)

lemma b64decode_pad2:
  assumes "i0 < 64" "i1 < 64"
  shows "b64decode [unat (b64_char i0), unat (b64_char i1), 61, 61] =
         Inr [of_nat (i0 * 4 + i1 div 16)]"
  by (simp only: b64decode.simps b64_char_index [OF assms(1)] b64_char_index [OF assms(2)]
      prod.case option.case simp_thms if_True)

lemma unat_pad: "unat (0x3D :: byte) = 61" by simp

lemma b64_roundtrip: "b64decode (map unat (b64encode xs)) = Inr xs"
proof (induction xs rule: b64encode.induct)
  case 1 show ?case by simp
next
  case (2 a)
  note s = sextets [OF unat_byte_lt [of a] unat_byte_lt [of 0] unat_byte_lt [of 0]]
  have "b64decode (map unat (b64encode [a])) =
        b64decode [unat (b64_char (unat a div 4)), unat (b64_char (unat a mod 4 * 16)), 61, 61]"
    by (simp only: b64encode.simps list.map unat_pad)
  also have "\<dots> = Inr [of_nat (unat a div 4 * 4 + unat a mod 4 * 16 div 16)]"
    by (rule b64decode_pad2 [OF s(1) s(5)])
  also have "\<dots> = Inr [a]" by (simp only: s(10) of_nat_unat_byte)
  finally show ?case .
next
  case (3 a b)
  note s = sextets [OF unat_byte_lt [of a] unat_byte_lt [of b] unat_byte_lt [of 0]]
  have "b64decode (map unat (b64encode [a, b])) =
        b64decode [unat (b64_char (unat a div 4)),
                   unat (b64_char (unat a mod 4 * 16 + unat b div 16)),
                   unat (b64_char (unat b mod 16 * 4)), 61]"
    by (simp only: b64encode.simps list.map unat_pad)
  also have "\<dots> = Inr [of_nat (unat a div 4 * 4 + (unat a mod 4 * 16 + unat b div 16) div 16),
       of_nat ((unat a mod 4 * 16 + unat b div 16) mod 16 * 16 + unat b mod 16 * 4 div 4)]"
    by (rule b64decode_pad1 [OF s(1) s(2) s(6)])
  also have "\<dots> = Inr [a, b]" by (simp only: s(7) s(11) of_nat_unat_byte)
  finally show ?case .
next
  case (4 a b c rest)
  note s = sextets [OF unat_byte_lt [of a] unat_byte_lt [of b] unat_byte_lt [of c]]
  have "b64decode (map unat (b64encode (a # b # c # rest))) =
        b64decode (unat (b64_char (unat a div 4)) #
                   unat (b64_char (unat a mod 4 * 16 + unat b div 16)) #
                   unat (b64_char (unat b mod 16 * 4 + unat c div 64)) #
                   unat (b64_char (unat c mod 64)) # map unat (b64encode rest))"
    by (simp only: b64encode.simps list.map append.simps map_append)
  also have "\<dots> = bindE (b64decode (map unat (b64encode rest))) (\<lambda>bs.
       Inr (of_nat (unat a div 4 * 4 + (unat a mod 4 * 16 + unat b div 16) div 16)
          # of_nat ((unat a mod 4 * 16 + unat b div 16) mod 16 * 16
                    + (unat b mod 16 * 4 + unat c div 64) div 4)
          # of_nat ((unat b mod 16 * 4 + unat c div 64) mod 4 * 64 + unat c mod 64) # bs))"
    by (rule b64decode_group [OF s(1) s(2) s(3) s(4)])
  also have "\<dots> = Inr (a # b # c # rest)"
    by (simp only: "4.IH" bindE_def sum.case s(7) s(8) s(9) of_nat_unat_byte)
  finally show ?case .
qed

lemma b64encode_ascii: "list_all (\<lambda>b. b < 0x80) (b64encode xs)"
  by (induction xs rule: b64encode.induct) (simp_all add: b64_char_ascii)

lemma decode_ascii_b64encode: "decode_ascii (b64encode xs) = Inr (map unat (b64encode xs))"
  by (simp add: decode_ascii_def b64encode_ascii)


subsection \<open>The steps of build_keystore\<close>

lemma length_drawn_salt: "length (drawn_salt rng) = 32"
  by (simp add: drawn_salt_def os_urandom_def)

lemma length_drawn_nonce: "length (drawn_nonce rng) = 24"
  by (simp add: drawn_nonce_def os_urandom_def)

lemma os_urandom_salt: "os_urandom 32 rng = (drawn_salt rng, \<lambda>i. rng (i + 32))"
  by (simp add: drawn_salt_def os_urandom_def)

lemma os_urandom_nonce: "os_urandom 24 (\<lambda>i. rng (i + 32)) = (drawn_nonce rng, \<lambda>i. rng (i + 56))"
  by (simp add: drawn_nonce_def os_urandom_def add.assoc)

lemma struct_pack_I_n: "struct_pack_I (push_bit 15 1) = Inr [0x00, 0x80, 0x00, 0x00]"
  by (simp add: struct_pack_I_def)

lemma struct_pack_I_p: "struct_pack_I 1 = Inr [0x01, 0x00, 0x00, 0x00]"
  by (simp add: struct_pack_I_def)

lemma struct_pack_I_r: "struct_pack_I 8 = Inr [0x08, 0x00, 0x00, 0x00]"
  by (simp add: struct_pack_I_def)

lemma build_keystore_eq:
  "build_keystore L keypair seed_bytes password rng now_ms =
     (case bindE (utf8_encode password) (\<lambda>password_bytes.
              build_keystore_key L password_bytes (drawn_salt rng)) of
        Inl e \<Rightarrow> (Inl e, \<lambda>i. rng (i + 32))
      | Inr k \<Rightarrow>
          (if length k = 32 then
             Inr \<lparr>encoded = map unat (b64encode (drawn_salt rng @ [0x00, 0x80, 0x00, 0x00]
                      @ [0x01, 0x00, 0x00, 0x00] @ [0x08, 0x00, 0x00, 0x00] @ drawn_nonce rng
                      @ crypto_secretbox L (pkcs8_plaintext seed_bytes (public_key keypair))
                          (drawn_nonce rng) k)),
                  encoding_content = [py ''pkcs8'', py ''ed25519''],
                  encoding_type = [py ''scrypt'', py ''xsalsa20-poly1305''],
                  encoding_version = py ''3'',
                  keystore_address = ss58_address keypair,
                  meta_name = py ''Enjin Snap'',
                  meta_whenCreated = now_ms\<rparr>
           else Inl (Exc ''ValueError''),
           \<lambda>i. rng (i + 56)))"
  unfolding build_keystore_def Let_def os_urandom_salt prod.case os_urandom_nonce
    struct_pack_I_n struct_pack_I_p struct_pack_I_r
    decode_ascii_b64encode pkcs8_plaintext_def SecretBox_def
  by (simp add: bindE_def SecretBox_encrypt_def length_drawn_nonce split: sum.splits)

subsection \<open>The two key-derivation branches\<close>

lemma pick_n_log2_1024: "pick_n_log2 1024 = 10"
  by code_simp

lemma pick_params_fallback: "nacl_bindings_pick_scrypt_params 32768 33554432 = (10, 8, 1)"
  by (simp add: nacl_bindings_pick_scrypt_params_def Let_def pick_n_log2_1024)

lemma pick_n_log2_32768: "pick_n_log2 32768 = 15"
  by code_simp

lemma pick_params_intended: "nacl_bindings_pick_scrypt_params 1048576 33554432 = (15, 8, 1)"
  by (simp add: nacl_bindings_pick_scrypt_params_def Let_def pick_n_log2_32768)

lemma build_keystore_key_hashlib:
  assumes "hashlib_scrypt L password_bytes salt 32768 8 1 32 = Inr k"
  shows "build_keystore_key L password_bytes salt = Inr k"
    and "k = scrypt_rfc7914 L password_bytes salt 32768 8 1 32"
  using assms
  by (auto simp: build_keystore_key_def hashlib_scrypt_def split: if_splits option.splits)

lemma build_keystore_key_other_error:
  assumes "hashlib_scrypt L password_bytes salt 32768 8 1 32 = Inl e"
      and "e \<noteq> Exc ''AttributeError''"
  shows "build_keystore_key L password_bytes salt = Inl e"
  using assms by (simp add: build_keystore_key_def)

lemma build_keystore_key_fallback:
  assumes "hashlib_scrypt L password_bytes salt 32768 8 1 32 = Inl (Exc ''AttributeError'')"
      and "length salt = 32"
  shows "build_keystore_key L password_bytes salt =
         crypto_pwhash_scryptsalsa208sha256_ll L password_bytes salt 1024 8 1 33619968 32"
  using assms by (simp add: build_keystore_key_def nacl_pwhash_scrypt_kdf_def pick_params_fallback)

lemma build_keystore_key_fallback_value:
  assumes "hashlib_scrypt L password_bytes salt 32768 8 1 32 = Inl (Exc ''AttributeError'')"
      and "length salt = 32"
      and "build_keystore_key L password_bytes salt = Inr k"
  shows "k = scrypt_rfc7914 L password_bytes salt 1024 8 1 32"
  using assms(3) unfolding build_keystore_key_fallback [OF assms(1,2)]
  by (auto simp: crypto_pwhash_scryptsalsa208sha256_ll_def split: option.splits)

subsection \<open>The secret box\<close>

lemma length_crypto_stream: "length (crypto_stream_xsalsa20 L n nonce k) = n"
  by (simp add: crypto_stream_xsalsa20_def)

lemma xor_zeros: "length s = n \<Longrightarrow> map (\<lambda>(x, y). x XOR y) (zip (replicate n (0::byte)) s) = s"
proof (induction s arbitrary: n)
  case Nil then show ?case by simp
next
  case (Cons a s) then show ?case by (cases n) simp_all
qed

lemma xor_twice:
  "length s = length m \<Longrightarrow>
   map (\<lambda>(x, y). x XOR y) (zip (map (\<lambda>(x, y). x XOR y) (zip m s)) s) = (m :: bytes)"
proof (induction m arbitrary: s)
  case Nil then show ?case by simp
next
  case (Cons a m)
  then obtain b t where s: "s = b # t" and l: "length t = length m" by (cases s) auto
  have "(a XOR b) XOR b = a" by (simp add: xor.assoc)
  then show ?case using Cons.IH [OF l] s by simp
qed

lemma stream_split:
  "crypto_stream_xsalsa20 L (32 + n) nonce k =
   crypto_stream_xsalsa20 L 32 nonce k @ map (xsalsa20_keystream L nonce k) [32..<32 + n]"
proof -
  have "[0..<32 + n] = [0..<32] @ [32..<32 + n]"
    using upt_add_eq_append [of 0 32 n] by simp
  then show ?thesis by (simp only: crypto_stream_xsalsa20_def map_append)
qed

lemma stream_xor_padded:
  "crypto_stream_xsalsa20_xor L (replicate 32 0 @ m) nonce k =
   crypto_stream_xsalsa20 L 32 nonce k @ secretbox_ciphertext L m nonce k"
proof -
  have l: "length (replicate 32 (0::byte) @ m) = 32 + length m" by simp
  have z: "zip (replicate 32 (0::byte) @ m)
             (crypto_stream_xsalsa20 L 32 nonce k @ map (xsalsa20_keystream L nonce k) [32..<32 + length m])
         = zip (replicate 32 0) (crypto_stream_xsalsa20 L 32 nonce k)
           @ zip m (map (xsalsa20_keystream L nonce k) [32..<32 + length m])"
    by (rule zip_append) (simp add: length_crypto_stream)
  show ?thesis
    unfolding crypto_stream_xsalsa20_xor_def l stream_split z map_append secretbox_ciphertext_def
    by (simp only: xor_zeros [OF length_crypto_stream])
qed

lemma length_secretbox_ciphertext: "length (secretbox_ciphertext L m nonce k) = length m"
  by (simp add: secretbox_ciphertext_def)

lemma length_poly1305_tag: "length (crypto_onetimeauth_poly1305 L m k) = 16"
  by (simp add: crypto_onetimeauth_poly1305_def)

lemma length_secretbox_tag: "length (secretbox_tag L m nonce k) = 16"
  by (simp add: secretbox_tag_def length_poly1305_tag)

lemma crypto_secretbox_layout:
  "crypto_secretbox L m nonce k = secretbox_tag L m nonce k @ secretbox_ciphertext L m nonce k"
  by (simp add: crypto_secretbox_def Let_def stream_xor_padded length_crypto_stream secretbox_tag_def)

lemma length_crypto_secretbox: "length (crypto_secretbox L m nonce k) = 16 + length m"
  by (simp add: crypto_secretbox_layout length_secretbox_tag length_secretbox_ciphertext)

lemma secretbox_ciphertext_twice:
  "secretbox_ciphertext L (secretbox_ciphertext L m nonce k) nonce k = m"
  unfolding secretbox_ciphertext_def [of L "secretbox_ciphertext L m nonce k"]
    length_secretbox_ciphertext
  unfolding secretbox_ciphertext_def
  by (rule xor_twice) simp

lemma crypto_secretbox_open_ok:
  "crypto_secretbox_open L (crypto_secretbox L m nonce k) nonce k = Inr m"
  by (simp add: crypto_secretbox_open_def crypto_secretbox_layout length_secretbox_tag
      Let_def stream_xor_padded length_crypto_stream secretbox_ciphertext_twice
      secretbox_tag_def [symmetric])

lemma crypto_secretbox_open_wrong_key:
  assumes "crypto_onetimeauth_poly1305 L (secretbox_ciphertext L m nonce k)
             (crypto_stream_xsalsa20 L 32 nonce k') \<noteq> secretbox_tag L m nonce k"
  shows "crypto_secretbox_open L (crypto_secretbox L m nonce k) nonce k' = Inl (Exc ''CryptoError'')"
  using assms
  by (simp add: crypto_secretbox_open_def crypto_secretbox_layout length_secretbox_tag Let_def)

subsection \<open>Decrypting what build_keystore wrote\<close>

lemma le_uint_consts:
  "le_uint [0x00, 0x80, 0x00, 0x00] = 32768" "le_uint [0x01, 0x00, 0x00, 0x00] = 1"
  "le_uint [0x08, 0x00, 0x00, 0x00] = 8"
  by (simp_all add: le_uint_def)

lemma keystore_blob_parts:
  assumes "length salt = 32" "length nonce = 24"
  shows "take 32 (keystore_blob salt nonce a) = salt"
    "take 4 (drop 32 (keystore_blob salt nonce a)) = [0x00, 0x80, 0x00, 0x00]"
    "take 4 (drop 36 (keystore_blob salt nonce a)) = [0x01, 0x00, 0x00, 0x00]"
    "take 4 (drop 40 (keystore_blob salt nonce a)) = [0x08, 0x00, 0x00, 0x00]"
    "take 24 (drop 44 (keystore_blob salt nonce a)) = nonce"
    "drop 68 (keystore_blob salt nonce a) = a"
    "\<not> length (keystore_blob salt nonce a) < 68"
  using assms by (simp_all add: keystore_blob_def)

lemma decrypt_keystore_blob:
  assumes "length salt = 32" "length nonce = 24"
  shows "decrypt_keystore L (map unat (b64encode (keystore_blob salt nonce a))) password =
         bindE (utf8_encode password) (\<lambda>password_bytes.
           crypto_secretbox_open L a nonce (scrypt_rfc7914 L password_bytes salt 32768 8 1 32))"
  unfolding decrypt_keystore_def b64_roundtrip
  by (simp only: bindE_def sum.case keystore_blob_parts [OF assms] if_False Let_def le_uint_consts)
     (simp split: sum.splits)

lemma build_keystore_Inr:
  assumes "build_keystore L keypair seed_bytes password rng now_ms = (Inr ks, rng')"
  shows "\<exists>password_bytes k.
           utf8_encode password = Inr password_bytes
         \<and> build_keystore_key L password_bytes (drawn_salt rng) = Inr k
         \<and> length k = 32
         \<and> encoded ks = map unat (b64encode (keystore_blob (drawn_salt rng) (drawn_nonce rng)
              (crypto_secretbox L (pkcs8_plaintext seed_bytes (public_key keypair))
                 (drawn_nonce rng) k)))
         \<and> rng' = (\<lambda>i. rng (i + 56))"
  using assms unfolding build_keystore_eq keystore_blob_def
  by (auto simp: bindE_def split: sum.splits if_splits)

lemma decrypt_built_keystore_hashlib:
  assumes b: "build_keystore L keypair seed_bytes password rng now_ms = (Inr ks, rng')"
      and u: "utf8_encode password = Inr password_bytes"
      and h: "hashlib_scrypt L password_bytes (drawn_salt rng) 32768 8 1 32 \<noteq> Inl (Exc ''AttributeError'')"
  shows "decrypt_keystore L (encoded ks) password = Inr (pkcs8_plaintext seed_bytes (public_key keypair))"
proof -
  from build_keystore_Inr [OF b] u obtain k where
    k: "build_keystore_key L password_bytes (drawn_salt rng) = Inr k" and
    e: "encoded ks = map unat (b64encode (keystore_blob (drawn_salt rng) (drawn_nonce rng)
              (crypto_secretbox L (pkcs8_plaintext seed_bytes (public_key keypair))
                 (drawn_nonce rng) k)))"
    by auto
  from k h have "hashlib_scrypt L password_bytes (drawn_salt rng) 32768 8 1 32 = Inr k"
    by (auto simp: build_keystore_key_def split: sum.splits if_splits)
  then have kv: "k = scrypt_rfc7914 L password_bytes (drawn_salt rng) 32768 8 1 32"
    by (rule build_keystore_key_hashlib(2))
  show ?thesis
    unfolding e decrypt_keystore_blob [OF length_drawn_salt length_drawn_nonce] u
    by (simp add: bindE_def kv [symmetric] crypto_secretbox_open_ok)
qed

lemma decrypt_built_keystore_fallback:
  assumes b: "build_keystore L keypair seed_bytes password rng now_ms = (Inr ks, rng')"
      and u: "utf8_encode password = Inr password_bytes"
      and h: "hashlib_scrypt L password_bytes (drawn_salt rng) 32768 8 1 32 = Inl (Exc ''AttributeError'')"
  shows "decrypt_keystore L (encoded ks) password =
         crypto_secretbox_open L
           (crypto_secretbox L (pkcs8_plaintext seed_bytes (public_key keypair)) (drawn_nonce rng)
              (scrypt_rfc7914 L password_bytes (drawn_salt rng) 1024 8 1 32))
           (drawn_nonce rng) (scrypt_rfc7914 L password_bytes (drawn_salt rng) 32768 8 1 32)"
proof -
  from build_keystore_Inr [OF b] u obtain k where
    k: "build_keystore_key L password_bytes (drawn_salt rng) = Inr k" and
    e: "encoded ks = map unat (b64encode (keystore_blob (drawn_salt rng) (drawn_nonce rng)
              (crypto_secretbox L (pkcs8_plaintext seed_bytes (public_key keypair))
                 (drawn_nonce rng) k)))"
    by auto
  have kv: "k = scrypt_rfc7914 L password_bytes (drawn_salt rng) 1024 8 1 32"
    by (rule build_keystore_key_fallback_value [OF h length_drawn_salt k])
  show ?thesis
    unfolding e decrypt_keystore_blob [OF length_drawn_salt length_drawn_nonce] u
    by (simp add: bindE_def kv)
qed

subsection \<open>The stubs, evaluated\<close>

lemma first_byte_replicate: "0 < n \<Longrightarrow> first_byte (replicate n x) = x"
  by (cases n) simp_all

lemma utf8_test_password: "utf8_encode test_password = Inr test_password_bytes"
  by (simp add: test_password_def test_password_bytes_def py_def utf8_encode_cp_def bindE_def)

lemma stub_key: "build_keystore_key stub_crypto test_password_bytes salt = Inr (replicate 32 135)"
  by (simp add: build_keystore_key_def hashlib_scrypt_def stub_crypto_def test_password_bytes_def)

lemma stub_key_no_hashlib:
  "length salt = 32 \<Longrightarrow>
   build_keystore_key stub_crypto_no_hashlib test_password_bytes salt = Inr (replicate 32 11)"
  by (simp add: build_keystore_key_def hashlib_scrypt_def stub_crypto_def stub_crypto_no_hashlib_def
      nacl_pwhash_scrypt_kdf_def pick_params_fallback crypto_pwhash_scryptsalsa208sha256_ll_def
      test_password_bytes_def)

lemma stub_build:
  "fst (build_keystore stub_crypto test_keypair test_seed_bytes test_password test_entropy 1700000000000)
   = Inr test_keystore"
  unfolding build_keystore_eq utf8_test_password
  apply (simp add: bindE_def stub_key)
  apply (simp add: test_keystore_def py_def drawn_salt_def drawn_nonce_def os_urandom_def test_entropy_def
     crypto_secretbox_layout secretbox_tag_def secretbox_ciphertext_def crypto_stream_xsalsa20_def
     crypto_onetimeauth_poly1305_def stub_crypto_def pkcs8_plaintext_def test_keypair_def
     test_public_key_def test_seed_bytes_def b64_char_def first_byte_replicate upt_rec [of _ "numeral _"])
  done

section \<open>The claims\<close>









lemma build_keystore_decoded:
  assumes "build_keystore L keypair seed_bytes password rng now_ms = (Inr ks, rng')"
  shows "\<exists>password_bytes k.
           utf8_encode password = Inr password_bytes
         \<and> build_keystore_key L password_bytes (drawn_salt rng) = Inr k
         \<and> length k = 32
         \<and> encoded ks = map unat (b64encode (keystore_blob (drawn_salt rng) (drawn_nonce rng)
              (crypto_secretbox L (pkcs8_plaintext seed_bytes (public_key keypair))
                 (drawn_nonce rng) k)))
         \<and> b64decode (encoded ks) = Inr (keystore_blob (drawn_salt rng) (drawn_nonce rng)
              (crypto_secretbox L (pkcs8_plaintext seed_bytes (public_key keypair))
                 (drawn_nonce rng) k))"
proof -
  from build_keystore_Inr [OF assms] obtain password_bytes k where
    h: "utf8_encode password = Inr password_bytes"
       "build_keystore_key L password_bytes (drawn_salt rng) = Inr k"
       "length k = 32"
       "encoded ks = map unat (b64encode (keystore_blob (drawn_salt rng) (drawn_nonce rng)
              (crypto_secretbox L (pkcs8_plaintext seed_bytes (public_key keypair))
                 (drawn_nonce rng) k)))"
    by blast
  have "b64decode (encoded ks) = Inr (keystore_blob (drawn_salt rng) (drawn_nonce rng)
              (crypto_secretbox L (pkcs8_plaintext seed_bytes (public_key keypair))
                 (drawn_nonce rng) k))"
    unfolding h(4) by (rule b64_roundtrip)
  with h show ?thesis by blast
qed




lemma stub_build_pair:
  "build_keystore stub_crypto test_keypair test_seed_bytes test_password test_entropy 1700000000000
   = (Inr test_keystore, \<lambda>i. test_entropy (i + 56))"
proof -
  have "snd (build_keystore stub_crypto test_keypair test_seed_bytes test_password test_entropy
               1700000000000) = (\<lambda>i. test_entropy (i + 56))"
    unfolding build_keystore_eq utf8_test_password by (simp add: bindE_def stub_key)
  then show ?thesis using stub_build by (simp add: prod_eq_iff)
qed

lemma length_test_seed_bytes: "length test_seed_bytes = 32" by (simp add: test_seed_bytes_def)

lemma length_test_public_key: "length (public_key test_keypair) = 32"
  by (simp add: test_keypair_def test_public_key_def)

lemma stub_secretbox:
  "crypto_secretbox stub_crypto (pkcs8_plaintext test_seed_bytes test_public_key) nonce
     (replicate 32 135) = test_authenticated"
  by (simp add: crypto_secretbox_layout secretbox_tag_def secretbox_ciphertext_def
      crypto_stream_xsalsa20_def crypto_onetimeauth_poly1305_def stub_crypto_def
      pkcs8_plaintext_def test_public_key_def test_seed_bytes_def first_byte_replicate
      test_authenticated_def upt_rec [of _ "numeral _"])



text \<open>
  C4, as the code has it. When \<open>build_keystore\<close> succeeds on a 32-byte seed and a
  32-byte public key, the bytes that follow the nonce in the blob are the 16-byte
  Poly1305 authenticator first and the 85 bytes of ciphertext after it: NaCl's
  secret box puts the tag in front, not at the end. The nonce is in the blob
  once; the copy that \<open>box.encrypt\<close> puts in front of its output is cut off.
\<close>

theorem build_keystore_tag_first:
  assumes "length seed_bytes = 32"
      and "length (public_key keypair) = 32"
      and "build_keystore L keypair seed_bytes password rng now_ms = (Inr ks, rng')"
  shows "\<exists>password_bytes k.
           utf8_encode password = Inr password_bytes
         \<and> build_keystore_key L password_bytes (drawn_salt rng) = Inr k
         \<and> b64decode (encoded ks) =
              Inr (drawn_salt rng @ [0x00, 0x80, 0x00, 0x00] @ [0x01, 0x00, 0x00, 0x00]
                   @ [0x08, 0x00, 0x00, 0x00] @ drawn_nonce rng
                   @ secretbox_tag L (pkcs8_plaintext seed_bytes (public_key keypair))
                       (drawn_nonce rng) k
                   @ secretbox_ciphertext L (pkcs8_plaintext seed_bytes (public_key keypair))
                       (drawn_nonce rng) k)
         \<and> length (secretbox_tag L (pkcs8_plaintext seed_bytes (public_key keypair))
                      (drawn_nonce rng) k) = 16
         \<and> length (secretbox_ciphertext L (pkcs8_plaintext seed_bytes (public_key keypair))
                      (drawn_nonce rng) k) = 85"
proof -
  from build_keystore_decoded [OF assms(3)] obtain password_bytes k where
    h: "utf8_encode password = Inr password_bytes"
       "build_keystore_key L password_bytes (drawn_salt rng) = Inr k"
       "b64decode (encoded ks) = Inr (keystore_blob (drawn_salt rng) (drawn_nonce rng)
              (crypto_secretbox L (pkcs8_plaintext seed_bytes (public_key keypair))
                 (drawn_nonce rng) k))"
    by blast
  have l: "length (pkcs8_plaintext seed_bytes (public_key keypair)) = 85"
    using assms(1,2) by (simp add: pkcs8_plaintext_def)
  have c: "length (secretbox_ciphertext L (pkcs8_plaintext seed_bytes (public_key keypair))
                      (drawn_nonce rng) k) = 85"
    unfolding length_secretbox_ciphertext by (rule l)
  show ?thesis
    using h(1,2) h(3) [unfolded keystore_blob_def crypto_secretbox_layout] length_secretbox_tag c
    by blast
qed

theorem build_keystore_tag_first_witness:
  "b64decode (encoded test_keystore) =
     Inr (drawn_salt test_entropy @ [0x00, 0x80, 0x00, 0x00] @ [0x01, 0x00, 0x00, 0x00]
          @ [0x08, 0x00, 0x00, 0x00] @ drawn_nonce test_entropy
          @ secretbox_tag stub_crypto (pkcs8_plaintext test_seed_bytes test_public_key)
              (drawn_nonce test_entropy) (replicate 32 135)
          @ secretbox_ciphertext stub_crypto (pkcs8_plaintext test_seed_bytes test_public_key)
              (drawn_nonce test_entropy) (replicate 32 135))"
proof -
  have pk: "public_key test_keypair = test_public_key" by (simp add: test_keypair_def)
  from build_keystore_tag_first [OF length_test_seed_bytes length_test_public_key stub_build_pair]
  obtain password_bytes k where
    h: "utf8_encode test_password = Inr password_bytes"
       "build_keystore_key stub_crypto password_bytes (drawn_salt test_entropy) = Inr k"
       "b64decode (encoded test_keystore) =
              Inr (drawn_salt test_entropy @ [0x00, 0x80, 0x00, 0x00] @ [0x01, 0x00, 0x00, 0x00]
                   @ [0x08, 0x00, 0x00, 0x00] @ drawn_nonce test_entropy
                   @ secretbox_tag stub_crypto (pkcs8_plaintext test_seed_bytes test_public_key)
                       (drawn_nonce test_entropy) k
                   @ secretbox_ciphertext stub_crypto (pkcs8_plaintext test_seed_bytes test_public_key)
                       (drawn_nonce test_entropy) k)"
    unfolding pk by blast
  from h(1) have p: "password_bytes = test_password_bytes" by (simp add: utf8_test_password)
  from h(2) have k: "k = replicate 32 135" unfolding p stub_key by simp
  from h(3) show ?thesis unfolding k .
qed

theorem tag_last_counterexample:
  "fst (build_keystore stub_crypto test_keypair test_seed_bytes test_password test_entropy
          1700000000000) = Inr test_keystore
   \<and> b64decode (encoded test_keystore) =
        Inr (drawn_salt test_entropy @ [0x00, 0x80, 0x00, 0x00] @ [0x01, 0x00, 0x00, 0x00]
             @ [0x08, 0x00, 0x00, 0x00] @ drawn_nonce test_entropy @ test_authenticated)
   \<and> test_authenticated \<noteq>
        secretbox_ciphertext stub_crypto (pkcs8_plaintext test_seed_bytes test_public_key)
          (drawn_nonce test_entropy) (replicate 32 135)
        @ secretbox_tag stub_crypto (pkcs8_plaintext test_seed_bytes test_public_key)
            (drawn_nonce test_entropy) (replicate 32 135)"
proof -
  have pk: "public_key test_keypair = test_public_key" by (simp add: test_keypair_def)
  from build_keystore_decoded [OF stub_build_pair] obtain password_bytes k where
    h: "utf8_encode test_password = Inr password_bytes"
       "build_keystore_key stub_crypto password_bytes (drawn_salt test_entropy) = Inr k"
       "b64decode (encoded test_keystore) = Inr (keystore_blob (drawn_salt test_entropy)
          (drawn_nonce test_entropy)
          (crypto_secretbox stub_crypto (pkcs8_plaintext test_seed_bytes test_public_key)
             (drawn_nonce test_entropy) k))"
    unfolding pk by blast
  from h(1) have p: "password_bytes = test_password_bytes" by (simp add: utf8_test_password)
  from h(2) have k: "k = replicate 32 135" unfolding p stub_key by simp
  have b: "b64decode (encoded test_keystore) =
        Inr (drawn_salt test_entropy @ [0x00, 0x80, 0x00, 0x00] @ [0x01, 0x00, 0x00, 0x00]
             @ [0x08, 0x00, 0x00, 0x00] @ drawn_nonce test_entropy @ test_authenticated)"
    using h(3) unfolding k stub_secretbox keystore_blob_def .
  have n: "test_authenticated \<noteq>
        secretbox_ciphertext stub_crypto (pkcs8_plaintext test_seed_bytes test_public_key)
          (drawn_nonce test_entropy) (replicate 32 135)
        @ secretbox_tag stub_crypto (pkcs8_plaintext test_seed_bytes test_public_key)
            (drawn_nonce test_entropy) (replicate 32 135)"
    by (simp add: secretbox_tag_def secretbox_ciphertext_def crypto_stream_xsalsa20_def
        crypto_onetimeauth_poly1305_def stub_crypto_def pkcs8_plaintext_def test_public_key_def
        test_seed_bytes_def first_byte_replicate test_authenticated_def upt_rec [of _ "numeral _"])
  show ?thesis using stub_build b n by simp
qed











text \<open>
  C9, as the code has it. \<open>derive_ethereum\<close> has no error type of its own and
  catches nothing: when eth-account's \<open>from_mnemonic\<close> raises on a mnemonic, that
  exception is the outcome of \<open>derive_ethereum\<close>, and no account is returned.
\<close>

theorem derive_ethereum_propagates_library_error:
  assumes "hdaccount_from_mnemonic L mnemonic (py ''m/44'/60'/0'/0/0'') = Inl e"
  shows "fst (derive_ethereum L mnemonic flag) = Inl e"
  using assms
  by (simp add: derive_ethereum_def Let_def Account_enable_unaudited_hdwallet_features_def
      Account_from_mnemonic_def)

lemma stub_rejects:
  "hdaccount_from_mnemonic stub_hd_libs (py ''abandon abandon'') (py ''m/44'/60'/0'/0/0'')
   = Inl (Exc ''ValidationError'')"
  by (simp add: stub_hd_libs_def test_mnemonic_def py_def)

theorem derive_ethereum_propagates_library_error_witness:
  "fst (derive_ethereum stub_hd_libs (py ''abandon abandon'') False) = Inl (Exc ''ValidationError'')"
  by (rule derive_ethereum_propagates_library_error [OF stub_rejects])

theorem derive_ethereum_invalid_mnemonic_counterexample:
  "hdaccount_from_mnemonic stub_hd_libs (py ''abandon abandon'') (py ''m/44'/60'/0'/0/0'')
     = Inl (Exc ''ValidationError'')
   \<and> fst (derive_ethereum stub_hd_libs (py ''abandon abandon'') False)
     \<noteq> Inl (Exc ''InvalidMnemonic'')"
  using stub_rejects
  by (simp add: derive_ethereum_def Let_def Account_enable_unaudited_hdwallet_features_def
      Account_from_mnemonic_def)

lemma stub_no_hashlib_AttributeError:
  "hashlib_scrypt stub_crypto_no_hashlib password_bytes salt n r p dklen = Inl (Exc ''AttributeError'')"
  by (simp add: hashlib_scrypt_def stub_crypto_no_hashlib_def stub_crypto_def)

lemma stub_scrypt_values:
  "scrypt_rfc7914 stub_crypto_no_hashlib test_password_bytes salt 1024 8 1 32 = replicate 32 11"
  "scrypt_rfc7914 stub_crypto_no_hashlib test_password_bytes salt 32768 8 1 32 = replicate 32 135"
  "scrypt_rfc7914 stub_crypto test_password_bytes salt 32768 8 1 32 = replicate 32 135"
  by (simp_all add: stub_crypto_no_hashlib_def stub_crypto_def test_password_bytes_def)

lemma replicate_32_neq: "replicate 32 (11 :: byte) \<noteq> replicate 32 135"
proof
  assume "replicate 32 (11 :: byte) = replicate 32 135"
  then have "replicate 32 (11 :: byte) ! 0 = replicate 32 (135 :: byte) ! 0" by (simp only:)
  then show False by simp
qed

text \<open>
  C5. On an interpreter whose hashlib has no \<open>scrypt\<close>, the \<open>except\<close> branch
  passes \<open>opslimit = 32768\<close> and \<open>memlimit = 128 * 32768 * 8\<close> to PyNaCl, whose
  parameter choice turns them into \<open>n_log2 = 10\<close>, \<open>r = 8\<close>, \<open>p = 1\<close>. The key is
  then scrypt with N = 1024, not with N = 32768 as in the \<open>try\<close> branch and as
  the blob says. Lemma \<open>build_keystore_key_fallback_value\<close> is the same fact for
  every library; here it is evaluated on the stub, where the two keys differ.
\<close>

theorem fallback_key_is_scrypt_n_1024:
  "hashlib_scrypt stub_crypto_no_hashlib test_password_bytes (drawn_salt test_entropy) 32768 8 1 32
     = Inl (Exc ''AttributeError'')
   \<and> nacl_bindings_pick_scrypt_params 32768 (128 * 32768 * 8) = (10, 8, 1)
   \<and> build_keystore_key stub_crypto_no_hashlib test_password_bytes (drawn_salt test_entropy)
     = Inr (scrypt_rfc7914 stub_crypto_no_hashlib test_password_bytes (drawn_salt test_entropy)
              1024 8 1 32)
   \<and> build_keystore_key stub_crypto_no_hashlib test_password_bytes (drawn_salt test_entropy)
     \<noteq> Inr (scrypt_rfc7914 stub_crypto_no_hashlib test_password_bytes (drawn_salt test_entropy)
              32768 8 1 32)
   \<and> build_keystore_key stub_crypto test_password_bytes (drawn_salt test_entropy)
     = Inr (scrypt_rfc7914 stub_crypto test_password_bytes (drawn_salt test_entropy) 32768 8 1 32)"
  using pick_params_fallback replicate_32_neq
  by (simp add: stub_no_hashlib_AttributeError stub_key stub_key_no_hashlib length_drawn_salt
      stub_scrypt_values)

lemma stub_build_fallback:
  "build_keystore stub_crypto_no_hashlib test_keypair test_seed_bytes test_password test_entropy
     1700000000000 = (Inr test_keystore_fallback, \<lambda>i. test_entropy (i + 56))"
  unfolding build_keystore_eq utf8_test_password
  apply (simp add: bindE_def stub_key_no_hashlib length_drawn_salt)
  apply (simp add: test_keystore_fallback_def py_def drawn_salt_def drawn_nonce_def os_urandom_def
     test_entropy_def crypto_secretbox_layout secretbox_tag_def secretbox_ciphertext_def
     crypto_stream_xsalsa20_def crypto_onetimeauth_poly1305_def stub_crypto_def
     stub_crypto_no_hashlib_def pkcs8_plaintext_def test_keypair_def
     test_public_key_def test_seed_bytes_def b64_char_def first_byte_replicate
     upt_rec [of _ "numeral _"])
  done

lemma stub_tags_differ:
  "crypto_onetimeauth_poly1305 stub_crypto_no_hashlib
     (secretbox_ciphertext stub_crypto_no_hashlib (pkcs8_plaintext test_seed_bytes test_public_key)
        nonce (replicate 32 11))
     (crypto_stream_xsalsa20 stub_crypto_no_hashlib 32 nonce (replicate 32 135))
   \<noteq> secretbox_tag stub_crypto_no_hashlib (pkcs8_plaintext test_seed_bytes test_public_key)
        nonce (replicate 32 11)"
  by (simp add: secretbox_tag_def length_secretbox_ciphertext crypto_onetimeauth_poly1305_def
      crypto_stream_xsalsa20_def stub_crypto_no_hashlib_def stub_crypto_def pkcs8_plaintext_def
      test_public_key_def test_seed_bytes_def first_byte_replicate upt_rec [of _ "numeral _"])

text \<open>
  C7. After the \<open>except\<close> branch the round trip fails: the blob says N = 32768,
  the key was derived with N = 1024 (see C5), and a reader that derives the key
  from the blob's parameters is refused by the authenticator. After the \<open>try\<close>
  branch it succeeds and gives back header, seed, divider and public key; lemma
  \<open>decrypt_built_keystore_hashlib\<close> says so for every library, seed, public key
  and password. Both are evaluated on the stubs here.
\<close>

theorem roundtrip_fails_after_fallback:
  "fst (build_keystore stub_crypto_no_hashlib test_keypair test_seed_bytes test_password
          test_entropy 1700000000000) = Inr test_keystore_fallback
   \<and> decrypt_keystore stub_crypto_no_hashlib (encoded test_keystore_fallback) test_password
     = Inl (Exc ''CryptoError'')
   \<and> fst (build_keystore stub_crypto test_keypair test_seed_bytes test_password
          test_entropy 1700000000000) = Inr test_keystore
   \<and> decrypt_keystore stub_crypto (encoded test_keystore) test_password
     = Inr ([0x30, 0x53, 0x02, 0x01, 0x01, 0x30, 0x05, 0x06,
             0x03, 0x2b, 0x65, 0x70, 0x04, 0x22, 0x04, 0x20]
            @ test_seed_bytes @ [0xa1, 0x23, 0x03, 0x21, 0x00] @ test_public_key)"
proof -
  have pk: "public_key test_keypair = test_public_key" by (simp add: test_keypair_def)
  have "decrypt_keystore stub_crypto_no_hashlib (encoded test_keystore_fallback) test_password =
        crypto_secretbox_open stub_crypto_no_hashlib
          (crypto_secretbox stub_crypto_no_hashlib (pkcs8_plaintext test_seed_bytes test_public_key)
             (drawn_nonce test_entropy) (replicate 32 11))
          (drawn_nonce test_entropy) (replicate 32 135)"
    using decrypt_built_keystore_fallback [OF stub_build_fallback utf8_test_password
        stub_no_hashlib_AttributeError]
    by (simp only: stub_scrypt_values pk)
  also have "\<dots> = Inl (Exc ''CryptoError'')"
    by (rule crypto_secretbox_open_wrong_key [OF stub_tags_differ])
  finally have a: "decrypt_keystore stub_crypto_no_hashlib (encoded test_keystore_fallback)
                     test_password = Inl (Exc ''CryptoError'')" .
  have "hashlib_scrypt stub_crypto test_password_bytes (drawn_salt test_entropy) 32768 8 1 32
        \<noteq> Inl (Exc ''AttributeError'')"
    by (simp add: hashlib_scrypt_def stub_crypto_def)
  from decrypt_built_keystore_hashlib [OF stub_build_pair utf8_test_password this]
  have b: "decrypt_keystore stub_crypto (encoded test_keystore) test_password
     = Inr ([0x30, 0x53, 0x02, 0x01, 0x01, 0x30, 0x05, 0x06,
             0x03, 0x2b, 0x65, 0x70, 0x04, 0x22, 0x04, 0x20]
            @ test_seed_bytes @ [0xa1, 0x23, 0x03, 0x21, 0x00] @ test_public_key)"
    by (simp only: pk pkcs8_plaintext_def)
  show ?thesis using a b stub_build_fallback stub_build_pair by simp
qed

end
